theory Spec2Isabelle
  imports Main
begin

section \<open>JavaScript values the components handle\<close>

text \<open>
  A \<^verbatim>\<open>catch\<close> clause receives whatever was thrown. Both handlers only ask whether the
  value is an instance of \<^verbatim>\<open>Error\<close> and, if so, read its \<^verbatim>\<open>message\<close>.
\<close>

datatype thrown = Error_instance string | Not_an_Error

text \<open>
  What awaiting a call gives: the promise resolves, the call throws or the promise rejects
  (an \<^verbatim>\<open>await\<close> inside \<^verbatim>\<open>try\<close> treats both alike), or the promise never settles.
\<close>

datatype 'a outcome = Resolves 'a | Throws thrown | Never_settles

text \<open>
  Argument values at the call site of the SDK send function. The transfer form passes a
  transaction and a connection; the README and the tutorial show calls with an options
  object (keys and values of that object literal).
\<close>

datatype ('tx, 'conn) js_arg =
    Transaction_arg 'tx
  | Connection_arg 'conn
  | Options_arg "(string \<times> string) list"

section \<open>lib/config.ts\<close>

type_synonym process_env = "string \<rightharpoonup> string"

text \<open>
  \<^verbatim>\<open>process.env.X || "literal"\<close>: an unset variable is \<^verbatim>\<open>undefined\<close> and the empty
  string is falsy too, so both give the literal.
\<close>

definition or_literal :: "string option \<Rightarrow> string \<Rightarrow> string" where
  "or_literal v d = (case v of None \<Rightarrow> d | Some s \<Rightarrow> if s = [] then d else s)"

record paymaster_config =
  paymasterUrl :: string

record lazorkit_config =
  rpcUrl :: string
  portalUrl :: string
  paymasterConfig :: paymaster_config

definition LAZORKIT_CONFIG :: "process_env \<Rightarrow> lazorkit_config" where
  "LAZORKIT_CONFIG env =
     \<lparr> rpcUrl = or_literal (env ''NEXT_PUBLIC_RPC_URL'') ''https://api.devnet.solana.com'',
       portalUrl = or_literal (env ''NEXT_PUBLIC_PORTAL_URL'') ''https://portal.lazor.sh'',
       paymasterConfig =
         \<lparr> paymasterUrl =
             or_literal (env ''NEXT_PUBLIC_PAYMASTER_URL'') ''https://kora.devnet.lazorkit.com'' \<rparr> \<rparr>"

section \<open>components/TransferForm.tsx\<close>

subsection \<open>What the component imports\<close>

record ('pk, 'num) transfer_params =
  fromPubkey :: 'pk
  toPubkey :: 'pk
  lamports :: 'num

text \<open>
  The names imported from \<^verbatim>\<open>@solana/web3.js\<close> and the built-in \<^verbatim>\<open>parseFloat\<close> are
  parameters: \<^verbatim>\<open>new PublicKey(s)\<close> and \<^verbatim>\<open>SystemProgram.transfer(p)\<close> return or throw;
  numbers are an abstract type with the product \<^verbatim>\<open>*\<close>.
\<close>

record ('pk, 'num, 'ix) web3 =
  PublicKey_new :: "string \<Rightarrow> thrown + 'pk"
  parseFloat :: "string \<Rightarrow> 'num"
  times :: "'num \<Rightarrow> 'num \<Rightarrow> 'num"
  LAMPORTS_PER_SOL :: 'num
  SystemProgram_transfer :: "('pk, 'num) transfer_params \<Rightarrow> thrown + 'ix"

text \<open>A transaction is the list of its instructions; \<^verbatim>\<open>add\<close> appends one.\<close>

datatype 'ix transaction = Transaction (instructions: "'ix list")

definition Transaction_new :: "'ix transaction" where
  "Transaction_new = Transaction []"

definition Transaction_add :: "'ix transaction \<Rightarrow> 'ix \<Rightarrow> 'ix transaction" where
  "Transaction_add t ix = Transaction (instructions t @ [ix])"

text \<open>What \<^verbatim>\<open>useWallet()\<close> hands to the component.\<close>

record ('pk, 'ix, 'conn) wallet =
  publicKey :: "'pk option"
  connection :: "'conn option"
  sendTransaction :: "('ix transaction, 'conn) js_arg list \<Rightarrow> string outcome"

subsection \<open>Component state and the effects of a handler run\<close>

record form =
  recipient :: string
  amount :: string
  status :: string
  loading :: bool

datatype ('ix, 'conn) effect =
    SetRecipient string
  | SetAmount string
  | SetStatus string
  | SetLoading bool
  | ConsoleError string thrown
  | Call_sendTransaction "('ix transaction, 'conn) js_arg list"

fun apply_effect :: "form \<Rightarrow> ('ix, 'conn) effect \<Rightarrow> form" where
  "apply_effect f (SetRecipient s) = f\<lparr>recipient := s\<rparr>"
| "apply_effect f (SetAmount s) = f\<lparr>amount := s\<rparr>"
| "apply_effect f (SetStatus s) = f\<lparr>status := s\<rparr>"
| "apply_effect f (SetLoading b) = f\<lparr>loading := b\<rparr>"
| "apply_effect f (ConsoleError _ _) = f"
| "apply_effect f (Call_sendTransaction _) = f"

definition form_after :: "form \<Rightarrow> ('ix, 'conn) effect list \<Rightarrow> form" where
  "form_after f es = foldl apply_effect f es"

fun send_calls :: "('ix, 'conn) effect list \<Rightarrow> ('ix transaction, 'conn) js_arg list list" where
  "send_calls [] = []"
| "send_calls (Call_sendTransaction args # es) = args # send_calls es"
| "send_calls (_ # es) = send_calls es"

text \<open>
  A run of the handler: the effects in program order, and whether the handler returned
  (it does not when the awaited promise never settles).
\<close>

record ('ix, 'conn) run =
  effects :: "('ix, 'conn) effect list"
  finished :: bool

subsection \<open>handleTransfer\<close>

datatype completion = Completed | Raised thrown | Suspended

text \<open>The body of the \<^verbatim>\<open>try\<close> block, lines 21 to 48.\<close>

definition transfer_try ::
  "('pk, 'num, 'ix) web3 \<Rightarrow> 'pk \<Rightarrow> 'conn \<Rightarrow>
   (('ix transaction, 'conn) js_arg list \<Rightarrow> string outcome) \<Rightarrow> form \<Rightarrow>
   ('ix, 'conn) effect list \<times> completion" where
  "transfer_try L pk conn send f =
     (let started = [SetLoading True, SetStatus ''Creating transaction...''] in
      case PublicKey_new L (recipient f) of
        Inl e \<Rightarrow> (started, Raised e)
      | Inr recipientPubkey \<Rightarrow>
          let lamports = times L (parseFloat L (amount f)) (LAMPORTS_PER_SOL L) in
          (case SystemProgram_transfer L
                  \<lparr> fromPubkey = pk, toPubkey = recipientPubkey, lamports = lamports \<rparr> of
             Inl e \<Rightarrow> (started, Raised e)
           | Inr ix \<Rightarrow>
               let transaction = Transaction_add Transaction_new ix;
                   args = [Transaction_arg transaction, Connection_arg conn];
                   sent = started @ [SetStatus ''Sending transaction...'',
                                     Call_sendTransaction args] in
               (case send args of
                  Throws e \<Rightarrow> (sent, Raised e)
                | Never_settles \<Rightarrow> (sent, Suspended)
                | Resolves signature \<Rightarrow>
                    (sent @ [SetStatus (''Success! Transaction: '' @ signature),
                             SetRecipient '''', SetAmount ''''], Completed))))"

text \<open>\<^verbatim>\<open>error instanceof Error ? error.message : "Unknown error"\<close>\<close>

fun transfer_error_text :: "thrown \<Rightarrow> string" where
  "transfer_error_text (Error_instance m) = m"
| "transfer_error_text Not_an_Error = ''Unknown error''"

definition handleTransfer ::
  "('pk, 'num, 'ix) web3 \<Rightarrow> ('pk, 'ix, 'conn) wallet \<Rightarrow> form \<Rightarrow> ('ix, 'conn) run" where
  "handleTransfer L W f =
     (case publicKey W of
        None \<Rightarrow> \<lparr> effects = [SetStatus ''Please connect your wallet first''], finished = True \<rparr>
      | Some pk \<Rightarrow>
          (case connection W of
             None \<Rightarrow>
               \<lparr> effects = [SetStatus ''Please connect your wallet first''], finished = True \<rparr>
           | Some conn \<Rightarrow>
               (case transfer_try L pk conn (sendTransaction W) f of
                  (es, Completed) \<Rightarrow> \<lparr> effects = es @ [SetLoading False], finished = True \<rparr>
                | (es, Raised e) \<Rightarrow>
                    \<lparr> effects = es @ [ConsoleError ''Transfer error:'' e,
                                      SetStatus (''Error: '' @ transfer_error_text e),
                                      SetLoading False],
                      finished = True \<rparr>
                | (es, Suspended) \<Rightarrow> \<lparr> effects = es, finished = False \<rparr>)))"

text \<open>The outcomes of the send calls a run made, in order.\<close>

definition call_outcomes ::
  "('pk, 'ix, 'conn) wallet \<Rightarrow> ('ix, 'conn) run \<Rightarrow> string outcome list" where
  "call_outcomes W r = map (sendTransaction W) (send_calls (effects r))"

text \<open>
  Walks a run's effects with the current value of the loading flag and checks that every
  send call happens while the flag is true.
\<close>

fun calls_while_loading :: "bool \<Rightarrow> ('ix, 'conn) effect list \<Rightarrow> bool" where
  "calls_while_loading b [] = True"
| "calls_while_loading b (SetLoading b' # es) = calls_while_loading b' es"
| "calls_while_loading b (Call_sendTransaction _ # es) = (b \<and> calls_while_loading b es)"
| "calls_while_loading b (_ # es) = calls_while_loading b es"

text \<open>An options object with a \<^verbatim>\<open>feeToken\<close> key among the arguments of a call.\<close>

fun is_fee_token_option :: "('tx, 'conn) js_arg \<Rightarrow> bool" where
  "is_fee_token_option (Options_arg kvs) = (map_of kvs ''feeToken'' \<noteq> None)"
| "is_fee_token_option _ = False"

definition includes_fee_token_option :: "('tx, 'conn) js_arg list \<Rightarrow> bool" where
  "includes_fee_token_option args = list_ex is_fee_token_option args"

subsection \<open>What the component renders\<close>

text \<open>
  The JSX tree without its \<^verbatim>\<open>className\<close> strings, except for the status box, whose
  class depends on the status text. An input records the state field its
  \<^verbatim>\<open>onChange\<close> writes, the button the handler its \<^verbatim>\<open>onClick\<close> runs.
\<close>

datatype field = Recipient_field | Amount_field

datatype handler = On_handleTransfer

datatype tone = Success_tone | Error_tone | Info_tone

record input_attrs =
  input_type :: string
  input_value :: string
  input_onChange :: field
  input_placeholder :: string
  input_step :: "string option"
  input_min :: "string option"
  input_disabled :: bool

record button_attrs =
  button_onClick :: handler
  button_disabled :: bool
  button_text :: string

datatype element =
    Div "element list"
  | Status_box tone "element list"
  | H2 string
  | P string
  | Label string
  | Input input_attrs
  | Button button_attrs

fun inputs :: "element \<Rightarrow> input_attrs list" where
  "inputs (Div es) = concat (map inputs es)"
| "inputs (Status_box _ es) = concat (map inputs es)"
| "inputs (Input a) = [a]"
| "inputs _ = []"

fun buttons :: "element \<Rightarrow> button_attrs list" where
  "buttons (Div es) = concat (map buttons es)"
| "buttons (Status_box _ es) = concat (map buttons es)"
| "buttons (Button a) = [a]"
| "buttons _ = []"

text \<open>\<^verbatim>\<open>s.includes(sub)\<close>: \<^verbatim>\<open>sub\<close> occurs in \<^verbatim>\<open>s\<close> as a contiguous run.\<close>

fun str_includes :: "string \<Rightarrow> string \<Rightarrow> bool" where
  "str_includes [] sub = (sub = [])"
| "str_includes (c # cs) sub = (take (length sub) (c # cs) = sub \<or> str_includes cs sub)"

definition status_tone :: "string \<Rightarrow> tone" where
  "status_tone s =
     (if str_includes s ''Success'' then Success_tone
      else if str_includes s ''Error'' then Error_tone
      else Info_tone)"

definition TransferForm :: "('pk, 'ix, 'conn) wallet \<Rightarrow> form \<Rightarrow> element" where
  "TransferForm W f =
     (case publicKey W of
        None \<Rightarrow> Div [P ''Connect your wallet to send transfers'']
      | Some _ \<Rightarrow>
          Div ([H2 ''Send SOL (Gasless)'',
                Div [Label ''Recipient Address'',
                     Input \<lparr> input_type = ''text'', input_value = recipient f,
                             input_onChange = Recipient_field,
                             input_placeholder = ''Solana address...'',
                             input_step = None, input_min = None,
                             input_disabled = loading f \<rparr>],
                Div [Label ''Amount (SOL)'',
                     Input \<lparr> input_type = ''number'', input_value = amount f,
                             input_onChange = Amount_field,
                             input_placeholder = ''0.1'',
                             input_step = Some ''0.01'', input_min = Some ''0'',
                             input_disabled = loading f \<rparr>],
                Button \<lparr> button_onClick = On_handleTransfer,
                         button_disabled = (loading f \<or> recipient f = [] \<or> amount f = []),
                         button_text = (if loading f then ''Processing...''
                                        else ''Send Transfer'') \<rparr>]
               @ (if status f = [] then []
                  else [Status_box (status_tone (status f)) [P (status f)]])))"

section \<open>components/ConnectButton.tsx\<close>

text \<open>A synchronous call returns or throws.\<close>

datatype returned = Returned | Threw thrown

datatype connect_effect =
    Call_connect
  | Call_disconnect
  | SetError "string option"
  | Console_error string thrown

fun apply_connect_effect :: "string option \<Rightarrow> connect_effect \<Rightarrow> string option" where
  "apply_connect_effect err (SetError e) = e"
| "apply_connect_effect err _ = err"

definition error_after :: "string option \<Rightarrow> connect_effect list \<Rightarrow> string option" where
  "error_after err es = foldl apply_connect_effect err es"

text \<open>
  \<^verbatim>\<open>handleConnect\<close> awaits \<^verbatim>\<open>connect()\<close>; the effects are those up to the point
  where the handler returns or stays suspended.
\<close>

definition handleConnect :: "unit outcome \<Rightarrow> connect_effect list" where
  "handleConnect connect =
     (case connect of
        Resolves _ \<Rightarrow> [SetError None, Call_connect]
      | Never_settles \<Rightarrow> [SetError None, Call_connect]
      | Throws err \<Rightarrow>
          [SetError None, Call_connect, Console_error ''Connection error:'' err,
           SetError (Some (case err of Error_instance m \<Rightarrow> m
                                     | Not_an_Error \<Rightarrow> ''Failed to connect wallet''))])"

text \<open>\<^verbatim>\<open>handleDisconnect\<close> calls \<^verbatim>\<open>disconnect()\<close> without awaiting it.\<close>

definition handleDisconnect :: "returned \<Rightarrow> connect_effect list" where
  "handleDisconnect disconnect =
     (case disconnect of
        Returned \<Rightarrow> [Call_disconnect, SetError None]
      | Threw err \<Rightarrow> [Call_disconnect, Console_error ''Disconnection error:'' err])"

section \<open>Concrete inputs\<close>

subsection \<open>A stand-in for the imported library\<close>

text \<open>
  The handlers are run on a stand-in for \<^verbatim>\<open>@solana/web3.js\<close> and \<^verbatim>\<open>parseFloat\<close> that follows
  the library on ASCII strings as far as it computes:
  \<^item> \<^verbatim>\<open>new PublicKey(s)\<close> decodes \<^verbatim>\<open>s\<close> as base58 and accepts exactly the strings that decode
    to 32 bytes; the key is the number those bytes spell;
  \<^item> a number is NaN, a natural number that a double holds exactly, or \<open>Uncomputed\<close>: a value
    (fractions, signed and very large numbers, infinities) the stand-in does not work out;
  \<^item> \<^verbatim>\<open>parseFloat\<close> gives NaN exactly for the strings that, after leading white space and one
    optional sign, begin with neither a digit, nor a point and a digit, nor \<^verbatim>\<open>Infinity\<close>;
  \<^item> \<^verbatim>\<open>SystemProgram.transfer\<close> converts the lamports with \<^verbatim>\<open>BigInt\<close>, which throws a
    \<^verbatim>\<open>RangeError\<close> on NaN (the message is the one of V8), and returns an instruction for a
    natural number below \<open>2 ^ 64\<close>; on \<open>Uncomputed\<close> lamports the stand-in throws an error of
    its own, so such amounts are outside what it can be used for.
\<close>

datatype js_number = NaN | Exact nat | Uncomputed

definition base58_alphabet :: string where
  "base58_alphabet = ''123456789ABCDEFGHJKLMNPQRSTUVWXYZabcdefghijkmnopqrstuvwxyz''"

fun index_of :: "'a \<Rightarrow> 'a list \<Rightarrow> nat option" where
  "index_of x [] = None"
| "index_of x (y # ys) = (if x = y then Some 0 else map_option Suc (index_of x ys))"

fun base58_value :: "string \<Rightarrow> nat \<Rightarrow> nat option" where
  "base58_value [] acc = Some acc"
| "base58_value (c # cs) acc =
     (case index_of c base58_alphabet of
        None \<Rightarrow> None
      | Some d \<Rightarrow> base58_value cs (acc * 58 + d))"

text \<open>
  Each leading \<^verbatim>\<open>1\<close> of the text is a zero byte in front of the bytes of the number, and a
  number has \<open>k\<close> bytes when it lies between \<open>256 ^ (k - 1)\<close> and \<open>256 ^ k\<close> (none when it is
  zero). So the text decodes to 32 bytes when:
\<close>

definition decodes_to_32_bytes :: "nat \<Rightarrow> nat \<Rightarrow> bool" where
  "decodes_to_32_bytes zeros n =
     (zeros \<le> 32 \<and> n < 256 ^ (32 - zeros) \<and> (zeros = 32 \<or> 256 ^ (31 - zeros) \<le> n))"

definition demo_PublicKey_new :: "string \<Rightarrow> thrown + nat" where
  "demo_PublicKey_new s =
     (case base58_value s 0 of
        None \<Rightarrow> Inl (Error_instance ''Non-base58 character'')
      | Some n \<Rightarrow>
          if decodes_to_32_bytes (length (takeWhile (\<lambda>c. c = CHR ''1'') s)) n then Inr n
          else Inl (Error_instance ''Invalid public key input''))"

definition is_digit :: "char \<Rightarrow> bool" where
  "is_digit c = (c \<in> set ''0123456789'')"

definition is_space :: "char \<Rightarrow> bool" where
  "is_space c = (c \<in> set [CHR 0x09, CHR 0x0A, CHR 0x0B, CHR 0x0C, CHR 0x0D, CHR '' ''])"

fun digits_value :: "string \<Rightarrow> nat \<Rightarrow> nat" where
  "digits_value [] acc = acc"
| "digits_value (c # cs) acc =
     digits_value cs (acc * 10 + (case index_of c ''0123456789'' of None \<Rightarrow> 0 | Some d \<Rightarrow> d))"

definition begins_number :: "string \<Rightarrow> bool" where
  "begins_number t =
     (case t of
        [] \<Rightarrow> False
      | c # cs \<Rightarrow>
          is_digit c
          \<or> (c = CHR ''.'' \<and> (case cs of [] \<Rightarrow> False | d # _ \<Rightarrow> is_digit d))
          \<or> take 8 t = ''Infinity'')"

definition demo_parseFloat :: "string \<Rightarrow> js_number" where
  "demo_parseFloat s =
     (let t = dropWhile is_space s in
      case t of
        [] \<Rightarrow> NaN
      | c # cs \<Rightarrow>
          if is_digit c then
            (let n = digits_value (takeWhile is_digit t) 0;
                 rest = dropWhile is_digit t in
             if (case rest of [] \<Rightarrow> False | r # _ \<Rightarrow> r \<in> set ''.eE'') \<or> 2 ^ 53 < n
             then Uncomputed else Exact n)
          else if begins_number (if c \<in> set ''+-'' then cs else t) then Uncomputed
          else NaN)"

fun demo_times :: "js_number \<Rightarrow> js_number \<Rightarrow> js_number" where
  "demo_times NaN _ = NaN"
| "demo_times _ NaN = NaN"
| "demo_times (Exact a) (Exact b) = (if a * b \<le> 2 ^ 53 then Exact (a * b) else Uncomputed)"
| "demo_times _ _ = Uncomputed"

definition demo_transfer ::
  "(nat, js_number) transfer_params \<Rightarrow> thrown + (nat, js_number) transfer_params" where
  "demo_transfer p =
     (case lamports p of
        NaN \<Rightarrow> Inl (Error_instance
          ''The number NaN cannot be converted to a BigInt because it is not an integer'')
      | Exact n \<Rightarrow>
          if n < 2 ^ 64 then Inr p
          else Inl (Error_instance ''lamports not computed by the stand-in'')
      | Uncomputed \<Rightarrow> Inl (Error_instance ''lamports not computed by the stand-in''))"

definition demo_web3 :: "(nat, js_number, (nat, js_number) transfer_params) web3" where
  "demo_web3 =
     \<lparr> PublicKey_new = demo_PublicKey_new,
       parseFloat = demo_parseFloat,
       times = demo_times,
       LAMPORTS_PER_SOL = Exact 1000000000,
       SystemProgram_transfer = demo_transfer \<rparr>"

subsection \<open>Wallets, forms and environments\<close>

text \<open>
  The recipient is the address of the system program, thirty-two times \<^verbatim>\<open>1\<close>, which decodes
  to 32 zero bytes. The connected wallet holds the key 1 (the address with \<^verbatim>\<open>2\<close> as its last
  character) and a send function with a fixed outcome.
\<close>

definition system_program_address :: string where
  "system_program_address = ''11111111111111111111111111111111''"

definition demo_wallet ::
  "string outcome \<Rightarrow> (nat, (nat, js_number) transfer_params, string) wallet" where
  "demo_wallet out =
     \<lparr> publicKey = Some 1, connection = Some ''devnet'', sendTransaction = (\<lambda>_. out) \<rparr>"

definition no_wallet :: "(nat, (nat, js_number) transfer_params, string) wallet" where
  "no_wallet = \<lparr> publicKey = None, connection = None, sendTransaction = (\<lambda>_. Never_settles) \<rparr>"

definition demo_form :: "string \<Rightarrow> string \<Rightarrow> form" where
  "demo_form r a = \<lparr> recipient = r, amount = a, status = '''', loading = False \<rparr>"

definition demo_env :: process_env where
  "demo_env = map_of [(''NEXT_PUBLIC_RPC_URL'', ''''),
                      (''NEXT_PUBLIC_PORTAL_URL'', ''https://portal.example'')]"

definition demo_env2 :: process_env where
  "demo_env2 = map_of [(''NEXT_PUBLIC_RPC_URL'', ''https://rpc.example''),
                       (''NEXT_PUBLIC_PORTAL_URL'', []),
                       (''NEXT_PUBLIC_PAYMASTER_URL'', ''https://paymaster.example'')]"

section \<open>Properties\<close>

lemmas run_defs = handleTransfer_def transfer_try_def Let_def form_after_def call_outcomes_def
  Transaction_add_def Transaction_new_def

subsection \<open>The stand-in at the inputs used below\<close>

lemma base58_digit_1: "index_of CHR ''1'' base58_alphabet = Some 0"
  by (simp add: base58_alphabet_def)

lemma base58_digit_bang: "index_of CHR ''!'' base58_alphabet = None"
  by (simp add: base58_alphabet_def)

lemma demo_PublicKey_new_system_program:
  "demo_PublicKey_new system_program_address = Inr 0"
  by (simp add: demo_PublicKey_new_def system_program_address_def base58_digit_1
      decodes_to_32_bytes_def)

lemma demo_PublicKey_new_nope:
  "demo_PublicKey_new ''nope!'' = Inl (Error_instance ''Non-base58 character'')"
  by (simp add: demo_PublicKey_new_def base58_digit_bang split: option.split)

lemma demo_parseFloat_abc: "demo_parseFloat ''abc'' = NaN"
  by (simp add: demo_parseFloat_def is_space_def is_digit_def begins_number_def)

lemma demo_parseFloat_0: "demo_parseFloat ''0'' = Exact 0"
  by (simp add: demo_parseFloat_def is_space_def is_digit_def)

lemma demo_parseFloat_2: "demo_parseFloat ''2'' = Exact 2"
  by (simp add: demo_parseFloat_def is_space_def is_digit_def)

lemma demo_transfer_Exact:
  "n < 2 ^ 64 \<Longrightarrow>
   demo_transfer \<lparr> fromPubkey = a, toPubkey = b, lamports = Exact n \<rparr>
     = Inr \<lparr> fromPubkey = a, toPubkey = b, lamports = Exact n \<rparr>"
  by (simp add: demo_transfer_def)

lemma demo_transfer_NaN:
  "demo_transfer \<lparr> fromPubkey = a, toPubkey = b, lamports = NaN \<rparr>
     = Inl (Error_instance
         ''The number NaN cannot be converted to a BigInt because it is not an integer'')"
  by (simp add: demo_transfer_def)

lemmas demo_defs = demo_web3_def demo_wallet_def demo_form_def no_wallet_def
  demo_PublicKey_new_system_program demo_PublicKey_new_nope
  demo_parseFloat_abc demo_parseFloat_0 demo_parseFloat_2
  demo_transfer_Exact demo_transfer_NaN

subsection \<open>The transfer form\<close>

text \<open>
  A run makes no send call, or exactly one, and its arguments are a transaction and a
  connection.
\<close>

lemma send_calls_shape:
  "send_calls (effects (handleTransfer L W f)) = [] \<or>
   (\<exists>t c. send_calls (effects (handleTransfer L W f)) = [[Transaction_arg t, Connection_arg c]])"
  by (auto simp: run_defs split: option.splits sum.splits outcome.splits)

text \<open>
  C1 as stated fails. At a submission that reaches the SDK call (wallet connected, recipient
  the system program's address, amount \<open>2\<close>, the send call resolving) the handler calls the
  send function with the transaction holding the transfer instruction and with the connection:
  no argument is an options object with a fee token.
\<close>

theorem handleTransfer_sends_without_fee_token:
  "send_calls (effects (handleTransfer demo_web3 (demo_wallet (Resolves ''5Sig''))
                          (demo_form system_program_address ''2'')))
     = [[Transaction_arg (Transaction [\<lparr> fromPubkey = 1, toPubkey = 0,
                                         lamports = Exact 2000000000 \<rparr>]),
         Connection_arg ''devnet'']]
   \<and> \<not> list_ex includes_fee_token_option
         (send_calls (effects (handleTransfer demo_web3 (demo_wallet (Resolves ''5Sig''))
                                 (demo_form system_program_address ''2''))))"
  by (simp add: run_defs demo_defs includes_fee_token_option_def)

text \<open>
  C1 as amended: the handler builds the transfer instruction from the wallet's key, the
  recipient field and the amount field, and every call of the SDK send function has exactly
  two arguments, the transaction holding that instruction and the connection; no fee-token
  option is passed.
\<close>

theorem send_call_arguments:
  "\<forall>args \<in> set (send_calls (effects (handleTransfer L W f))).
     \<not> includes_fee_token_option args
     \<and> (\<exists>pk conn rp ix.
          publicKey W = Some pk \<and> connection W = Some conn
          \<and> PublicKey_new L (recipient f) = Inr rp
          \<and> SystemProgram_transfer L
               \<lparr> fromPubkey = pk, toPubkey = rp,
                 lamports = times L (parseFloat L (amount f)) (LAMPORTS_PER_SOL L) \<rparr> = Inr ix
          \<and> args = [Transaction_arg (Transaction [ix]), Connection_arg conn])"
  by (auto simp: run_defs includes_fee_token_option_def
      split: option.splits sum.splits outcome.splits)

text \<open>C1 as amended, at the submission above.\<close>

theorem send_call_arguments_witness:
  "send_calls (effects (handleTransfer demo_web3 (demo_wallet (Resolves ''5Sig''))
                          (demo_form system_program_address ''2'')))
     = [[Transaction_arg (Transaction [\<lparr> fromPubkey = 1, toPubkey = 0,
                                         lamports = Exact 2000000000 \<rparr>]),
         Connection_arg ''devnet'']]
   \<and> \<not> includes_fee_token_option
         [Transaction_arg (Transaction [\<lparr> fromPubkey = 1::nat, toPubkey = 0,
                                          lamports = Exact 2000000000 \<rparr>]),
          Connection_arg ''devnet'']"
proof -
  have a: "send_calls (effects (handleTransfer demo_web3 (demo_wallet (Resolves ''5Sig''))
                          (demo_form system_program_address ''2'')))
     = [[Transaction_arg (Transaction [\<lparr> fromPubkey = 1, toPubkey = 0,
                                         lamports = Exact 2000000000 \<rparr>]),
         Connection_arg ''devnet'']]"
    by (simp add: run_defs demo_defs)
  show ?thesis
    using send_call_arguments [of demo_web3 "demo_wallet (Resolves ''5Sig'')"
        "demo_form system_program_address ''2''"]
    by (simp add: a)
qed

text \<open>
  C2: with the wallet connected, a recipient string that \<^verbatim>\<open>new PublicKey\<close> rejects makes the
  handler finish without any call of the SDK send function, and the status is
  \<open>Error: \<close> followed by the message of the thrown error (by \<open>Unknown error\<close> when the thrown
  value is not an \<^verbatim>\<open>Error\<close>).
\<close>

theorem invalid_recipient_shows_error:
  assumes "publicKey W = Some pk" and "connection W = Some conn"
    and "PublicKey_new L (recipient f) = Inl e"
  shows "send_calls (effects (handleTransfer L W f)) = []
       \<and> finished (handleTransfer L W f)
       \<and> status (form_after f (effects (handleTransfer L W f)))
           = ''Error: '' @ (case e of Error_instance m \<Rightarrow> m | Not_an_Error \<Rightarrow> ''Unknown error'')"
  using assms by (cases e) (simp_all add: run_defs)

text \<open>C2 at the recipient \<open>nope!\<close>, which is not base58.\<close>

theorem invalid_recipient_shows_error_witness:
  "publicKey (demo_wallet (Resolves ''5Sig'')) = Some 1
   \<and> connection (demo_wallet (Resolves ''5Sig'')) = Some ''devnet''
   \<and> PublicKey_new demo_web3 (recipient (demo_form ''nope!'' ''2''))
       = Inl (Error_instance ''Non-base58 character'')
   \<and> send_calls (effects (handleTransfer demo_web3 (demo_wallet (Resolves ''5Sig''))
                            (demo_form ''nope!'' ''2''))) = []
   \<and> status (form_after (demo_form ''nope!'' ''2'')
               (effects (handleTransfer demo_web3 (demo_wallet (Resolves ''5Sig''))
                           (demo_form ''nope!'' ''2''))))
       = ''Error: Non-base58 character''"
  using invalid_recipient_shows_error [of "demo_wallet (Resolves ''5Sig'')" 1 "''devnet''"
      demo_web3 "demo_form ''nope!'' ''2''" "Error_instance ''Non-base58 character''"]
  by (simp add: demo_defs)

text \<open>
  C3: whenever the send call of a run resolved with a signature \<open>s\<close>, the handler has
  finished and the status is \<open>Success! Transaction: \<close> followed by \<open>s\<close>.
\<close>

theorem resolved_call_shows_signature:
  assumes "Resolves s \<in> set (call_outcomes W (handleTransfer L W f))"
  shows "status (form_after f (effects (handleTransfer L W f))) = ''Success! Transaction: '' @ s
       \<and> finished (handleTransfer L W f)"
  using assms by (auto simp: run_defs split: option.splits sum.splits outcome.splits)

text \<open>C3 at a submission whose send call resolves with \<open>5Sig\<close>.\<close>

theorem resolved_call_shows_signature_witness:
  "Resolves ''5Sig'' \<in> set (call_outcomes (demo_wallet (Resolves ''5Sig''))
       (handleTransfer demo_web3 (demo_wallet (Resolves ''5Sig''))
          (demo_form system_program_address ''2'')))
   \<and> status (form_after (demo_form system_program_address ''2'')
        (effects (handleTransfer demo_web3 (demo_wallet (Resolves ''5Sig''))
                    (demo_form system_program_address ''2''))))
       = ''Success! Transaction: 5Sig''"
proof -
  have h: "Resolves ''5Sig'' \<in> set (call_outcomes (demo_wallet (Resolves ''5Sig''))
       (handleTransfer demo_web3 (demo_wallet (Resolves ''5Sig''))
          (demo_form system_program_address ''2'')))"
    by (simp add: run_defs demo_defs)
  from resolved_call_shows_signature [OF h] h show ?thesis by simp
qed

text \<open>
  C4: without a public key the component renders the placeholder paragraph alone, with no
  input and no button; with a public key it renders the recipient input, the amount input and
  the send button.
\<close>

theorem disconnected_hides_form:
  "(publicKey W = None \<longrightarrow>
      TransferForm W f = Div [P ''Connect your wallet to send transfers'']
      \<and> inputs (TransferForm W f) = [] \<and> buttons (TransferForm W f) = [])
   \<and> (publicKey W \<noteq> None \<longrightarrow>
      map input_onChange (inputs (TransferForm W f)) = [Recipient_field, Amount_field]
      \<and> map button_onClick (buttons (TransferForm W f)) = [On_handleTransfer])"
  by (auto simp: TransferForm_def)

text \<open>C4 at a disconnected and at a connected wallet.\<close>

theorem disconnected_hides_form_witness:
  "publicKey no_wallet = None
   \<and> TransferForm no_wallet (demo_form system_program_address ''2'')
       = Div [P ''Connect your wallet to send transfers'']
   \<and> inputs (TransferForm no_wallet (demo_form system_program_address ''2'')) = []
   \<and> buttons (TransferForm no_wallet (demo_form system_program_address ''2'')) = []
   \<and> publicKey (demo_wallet Never_settles) \<noteq> None
   \<and> map input_onChange
        (inputs (TransferForm (demo_wallet Never_settles) (demo_form system_program_address ''2'')))
       = [Recipient_field, Amount_field]
   \<and> map button_onClick
        (buttons (TransferForm (demo_wallet Never_settles) (demo_form system_program_address ''2'')))
       = [On_handleTransfer]"
  using disconnected_hides_form [of no_wallet "demo_form system_program_address ''2''"]
    disconnected_hides_form [of "demo_wallet Never_settles" "demo_form system_program_address ''2''"]
  by (simp add: demo_wallet_def no_wallet_def)

text \<open>
  C5 as stated fails: when the send call throws, the handler finishes and the recipient and
  amount fields still hold what the user typed.
\<close>

theorem failed_send_keeps_fields:
  "finished (handleTransfer demo_web3 (demo_wallet (Throws (Error_instance ''User rejected'')))
               (demo_form system_program_address ''2''))
   \<and> recipient (form_after (demo_form system_program_address ''2'')
        (effects (handleTransfer demo_web3 (demo_wallet (Throws (Error_instance ''User rejected'')))
                    (demo_form system_program_address ''2'')))) = system_program_address
   \<and> amount (form_after (demo_form system_program_address ''2'')
        (effects (handleTransfer demo_web3 (demo_wallet (Throws (Error_instance ''User rejected'')))
                    (demo_form system_program_address ''2'')))) = ''2''
   \<and> system_program_address \<noteq> []"
  by (simp add: run_defs demo_defs) (simp add: system_program_address_def)

text \<open>
  C5 as amended: the recipient and amount fields are reset to the empty string when the
  run's send call resolved; in every other run they keep their values.
\<close>

theorem fields_reset_on_success_only:
  "((\<exists>s. Resolves s \<in> set (call_outcomes W (handleTransfer L W f))) \<longrightarrow>
      recipient (form_after f (effects (handleTransfer L W f))) = []
      \<and> amount (form_after f (effects (handleTransfer L W f))) = [])
   \<and> ((\<forall>s. Resolves s \<notin> set (call_outcomes W (handleTransfer L W f))) \<longrightarrow>
      recipient (form_after f (effects (handleTransfer L W f))) = recipient f
      \<and> amount (form_after f (effects (handleTransfer L W f))) = amount f)"
  by (auto simp: run_defs split: option.splits sum.splits outcome.splits)

text \<open>C5 as amended, at a resolving and at a throwing send call.\<close>

theorem fields_reset_on_success_only_witness:
  "Resolves ''5Sig'' \<in> set (call_outcomes (demo_wallet (Resolves ''5Sig''))
       (handleTransfer demo_web3 (demo_wallet (Resolves ''5Sig''))
          (demo_form system_program_address ''2'')))
   \<and> recipient (form_after (demo_form system_program_address ''2'')
        (effects (handleTransfer demo_web3 (demo_wallet (Resolves ''5Sig''))
                    (demo_form system_program_address ''2'')))) = []
   \<and> amount (form_after (demo_form system_program_address ''2'')
        (effects (handleTransfer demo_web3 (demo_wallet (Resolves ''5Sig''))
                    (demo_form system_program_address ''2'')))) = []
   \<and> call_outcomes (demo_wallet (Throws Not_an_Error))
        (handleTransfer demo_web3 (demo_wallet (Throws Not_an_Error))
           (demo_form system_program_address ''2''))
       = [Throws Not_an_Error]
   \<and> recipient (form_after (demo_form system_program_address ''2'')
        (effects (handleTransfer demo_web3 (demo_wallet (Throws Not_an_Error))
                    (demo_form system_program_address ''2'')))) = system_program_address
   \<and> amount (form_after (demo_form system_program_address ''2'')
        (effects (handleTransfer demo_web3 (demo_wallet (Throws Not_an_Error))
                    (demo_form system_program_address ''2'')))) = ''2''"
proof -
  have a: "call_outcomes (demo_wallet (Resolves ''5Sig''))
       (handleTransfer demo_web3 (demo_wallet (Resolves ''5Sig''))
          (demo_form system_program_address ''2''))
       = [Resolves ''5Sig'']"
    by (simp add: run_defs demo_defs)
  have b: "call_outcomes (demo_wallet (Throws Not_an_Error))
        (handleTransfer demo_web3 (demo_wallet (Throws Not_an_Error))
           (demo_form system_program_address ''2''))
       = [Throws Not_an_Error]"
    by (simp add: run_defs demo_defs)
  show ?thesis
    using fields_reset_on_success_only [of "demo_wallet (Resolves ''5Sig'')" demo_web3
        "demo_form system_program_address ''2''"]
      fields_reset_on_success_only [of "demo_wallet (Throws Not_an_Error)" demo_web3
        "demo_form system_program_address ''2''"]
    by (simp add: a b) (simp add: demo_form_def)
qed

text \<open>
  C6 as stated fails: with \<^verbatim>\<open>NEXT_PUBLIC_RPC_URL\<close> set to the empty string, \<^verbatim>\<open>rpcUrl\<close> is
  not that value but the literal.
\<close>

theorem empty_variable_yields_literal:
  "demo_env ''NEXT_PUBLIC_RPC_URL'' = Some []
   \<and> rpcUrl (LAZORKIT_CONFIG demo_env) \<noteq> []
   \<and> rpcUrl (LAZORKIT_CONFIG demo_env) = ''https://api.devnet.solana.com''"
  by (simp add: demo_env_def LAZORKIT_CONFIG_def or_literal_def)

text \<open>
  C6 as amended: each of \<^verbatim>\<open>rpcUrl\<close>, \<^verbatim>\<open>portalUrl\<close> and \<^verbatim>\<open>paymasterConfig.paymasterUrl\<close>
  equals its environment variable when that is set to a non-empty string, and its literal when
  the variable is unset or empty.
\<close>

theorem config_fallbacks:
  "(env ''NEXT_PUBLIC_RPC_URL'' = Some r \<and> r \<noteq> [] \<longrightarrow> rpcUrl (LAZORKIT_CONFIG env) = r)
   \<and> (env ''NEXT_PUBLIC_RPC_URL'' = None \<or> env ''NEXT_PUBLIC_RPC_URL'' = Some [] \<longrightarrow>
        rpcUrl (LAZORKIT_CONFIG env) = ''https://api.devnet.solana.com'')
   \<and> (env ''NEXT_PUBLIC_PORTAL_URL'' = Some p \<and> p \<noteq> [] \<longrightarrow>
        portalUrl (LAZORKIT_CONFIG env) = p)
   \<and> (env ''NEXT_PUBLIC_PORTAL_URL'' = None \<or> env ''NEXT_PUBLIC_PORTAL_URL'' = Some [] \<longrightarrow>
        portalUrl (LAZORKIT_CONFIG env) = ''https://portal.lazor.sh'')
   \<and> (env ''NEXT_PUBLIC_PAYMASTER_URL'' = Some m \<and> m \<noteq> [] \<longrightarrow>
        paymasterUrl (paymasterConfig (LAZORKIT_CONFIG env)) = m)
   \<and> (env ''NEXT_PUBLIC_PAYMASTER_URL'' = None \<or> env ''NEXT_PUBLIC_PAYMASTER_URL'' = Some [] \<longrightarrow>
        paymasterUrl (paymasterConfig (LAZORKIT_CONFIG env)) = ''https://kora.devnet.lazorkit.com'')"
  by (auto simp: LAZORKIT_CONFIG_def or_literal_def)

text \<open>
  C6 as amended, at two environments that between them set, leave unset and set to the empty
  string each kind of variable.
\<close>

theorem config_fallbacks_witness:
  "demo_env ''NEXT_PUBLIC_RPC_URL'' = Some []
   \<and> rpcUrl (LAZORKIT_CONFIG demo_env) = ''https://api.devnet.solana.com''
   \<and> demo_env ''NEXT_PUBLIC_PORTAL_URL'' = Some ''https://portal.example''
   \<and> portalUrl (LAZORKIT_CONFIG demo_env) = ''https://portal.example''
   \<and> demo_env ''NEXT_PUBLIC_PAYMASTER_URL'' = None
   \<and> paymasterUrl (paymasterConfig (LAZORKIT_CONFIG demo_env)) = ''https://kora.devnet.lazorkit.com''
   \<and> demo_env2 ''NEXT_PUBLIC_RPC_URL'' = Some ''https://rpc.example''
   \<and> rpcUrl (LAZORKIT_CONFIG demo_env2) = ''https://rpc.example''
   \<and> demo_env2 ''NEXT_PUBLIC_PORTAL_URL'' = Some []
   \<and> portalUrl (LAZORKIT_CONFIG demo_env2) = ''https://portal.lazor.sh''
   \<and> demo_env2 ''NEXT_PUBLIC_PAYMASTER_URL'' = Some ''https://paymaster.example''
   \<and> paymasterUrl (paymasterConfig (LAZORKIT_CONFIG demo_env2)) = ''https://paymaster.example''"
proof -
  have a: "demo_env ''NEXT_PUBLIC_RPC_URL'' = Some []"
    "demo_env ''NEXT_PUBLIC_PORTAL_URL'' = Some ''https://portal.example''"
    "demo_env ''NEXT_PUBLIC_PAYMASTER_URL'' = None"
    by (simp_all add: demo_env_def)
  have b: "demo_env2 ''NEXT_PUBLIC_RPC_URL'' = Some ''https://rpc.example''"
    "demo_env2 ''NEXT_PUBLIC_PORTAL_URL'' = Some []"
    "demo_env2 ''NEXT_PUBLIC_PAYMASTER_URL'' = Some ''https://paymaster.example''"
    by (simp_all add: demo_env2_def)
  show ?thesis
    using config_fallbacks [of demo_env "[]" "''https://portal.example''" "[]"]
      config_fallbacks [of demo_env2 "''https://rpc.example''" "[]" "''https://paymaster.example''"]
    by (simp add: a b)
qed

text \<open>
  C7: a run of the handler calls the SDK send function at most once, and the status after
  the run reflects the outcome of that call: the success text with the signature, the error
  text with the message, or still \<open>Sending transaction...\<close> while the promise is pending.
\<close>

theorem at_most_one_send_call:
  "length (send_calls (effects (handleTransfer L W f))) \<le> 1
   \<and> (\<forall>out \<in> set (call_outcomes W (handleTransfer L W f)).
        status (form_after f (effects (handleTransfer L W f)))
          = (case out of
               Resolves s \<Rightarrow> ''Success! Transaction: '' @ s
             | Throws e \<Rightarrow> ''Error: '' @ transfer_error_text e
             | Never_settles \<Rightarrow> ''Sending transaction...''))"
  by (auto simp: run_defs split: option.splits sum.splits outcome.splits)

text \<open>C7 at a submission whose send call is rejected.\<close>

theorem at_most_one_send_call_witness:
  "length (send_calls (effects (handleTransfer demo_web3
        (demo_wallet (Throws (Error_instance ''User rejected'')))
        (demo_form system_program_address ''2'')))) = 1
   \<and> call_outcomes (demo_wallet (Throws (Error_instance ''User rejected'')))
        (handleTransfer demo_web3 (demo_wallet (Throws (Error_instance ''User rejected'')))
           (demo_form system_program_address ''2''))
       = [Throws (Error_instance ''User rejected'')]
   \<and> status (form_after (demo_form system_program_address ''2'')
        (effects (handleTransfer demo_web3 (demo_wallet (Throws (Error_instance ''User rejected'')))
                    (demo_form system_program_address ''2'')))) = ''Error: User rejected''"
proof -
  have a: "call_outcomes (demo_wallet (Throws (Error_instance ''User rejected'')))
        (handleTransfer demo_web3 (demo_wallet (Throws (Error_instance ''User rejected'')))
           (demo_form system_program_address ''2''))
       = [Throws (Error_instance ''User rejected'')]"
    by (simp add: run_defs demo_defs)
  have b: "length (send_calls (effects (handleTransfer demo_web3
        (demo_wallet (Throws (Error_instance ''User rejected'')))
        (demo_form system_program_address ''2'')))) = 1"
    by (simp add: run_defs demo_defs)
  show ?thesis
    using at_most_one_send_call [of demo_web3
        "demo_wallet (Throws (Error_instance ''User rejected''))"
        "demo_form system_program_address ''2''"]
    by (simp add: a b)
qed

text \<open>
  C8: past the connected-wallet guard, the first effect of the handler sets loading to true,
  every send call happens while loading is true, a handler that finishes does so by setting
  loading to false, and the handler finishes unless the awaited promise never settles.
\<close>

theorem loading_set_and_cleared:
  assumes "publicKey W = Some pk" and "connection W = Some conn"
  shows "take 1 (effects (handleTransfer L W f)) = [SetLoading True]
       \<and> calls_while_loading False (effects (handleTransfer L W f))
       \<and> (finished (handleTransfer L W f) \<longrightarrow>
            last (effects (handleTransfer L W f)) = SetLoading False
            \<and> \<not> loading (form_after f (effects (handleTransfer L W f))))
       \<and> (Never_settles \<notin> set (call_outcomes W (handleTransfer L W f)) \<longrightarrow>
            finished (handleTransfer L W f))"
  using assms by (auto simp: run_defs split: option.splits sum.splits outcome.splits)

text \<open>C8 at a submission whose send call resolves.\<close>

theorem loading_set_and_cleared_witness:
  "publicKey (demo_wallet (Resolves ''5Sig'')) = Some 1
   \<and> connection (demo_wallet (Resolves ''5Sig'')) = Some ''devnet''
   \<and> Never_settles \<notin> set (call_outcomes (demo_wallet (Resolves ''5Sig''))
        (handleTransfer demo_web3 (demo_wallet (Resolves ''5Sig''))
           (demo_form system_program_address ''2'')))
   \<and> finished (handleTransfer demo_web3 (demo_wallet (Resolves ''5Sig''))
        (demo_form system_program_address ''2''))
   \<and> take 1 (effects (handleTransfer demo_web3 (demo_wallet (Resolves ''5Sig''))
                (demo_form system_program_address ''2''))) = [SetLoading True]
   \<and> last (effects (handleTransfer demo_web3 (demo_wallet (Resolves ''5Sig''))
                (demo_form system_program_address ''2''))) = SetLoading False
   \<and> \<not> loading (form_after (demo_form system_program_address ''2'')
        (effects (handleTransfer demo_web3 (demo_wallet (Resolves ''5Sig''))
                    (demo_form system_program_address ''2''))))"
proof -
  have a: "publicKey (demo_wallet (Resolves ''5Sig'')) = Some 1"
    and b: "connection (demo_wallet (Resolves ''5Sig'')) = Some ''devnet''"
    by (simp_all add: demo_wallet_def)
  have c: "call_outcomes (demo_wallet (Resolves ''5Sig''))
        (handleTransfer demo_web3 (demo_wallet (Resolves ''5Sig''))
           (demo_form system_program_address ''2''))
      = [Resolves ''5Sig'']"
    by (simp add: run_defs demo_defs)
  show ?thesis
    using loading_set_and_cleared [OF a b, of demo_web3 "demo_form system_program_address ''2''"]
      a b
    by (simp add: c)
qed




text \<open>
  C10: when \<^verbatim>\<open>disconnect()\<close> throws, \<^verbatim>\<open>handleDisconnect\<close> makes no \<^verbatim>\<open>setError\<close> call and
  the error state is unchanged; when it returns, the error state is \<^verbatim>\<open>null\<close>.
\<close>

theorem disconnect_errors_not_surfaced:
  "error_after err (handleDisconnect (Threw e)) = err
   \<and> SetError m \<notin> set (handleDisconnect (Threw e))
   \<and> error_after err (handleDisconnect Returned) = None"
  by (simp add: handleDisconnect_def error_after_def)

end
